theory Spec2Isabelle
  imports Complex_Main "HOL-Library.AList"
begin

section \<open>Configuration (server/config.js)\<close>

text \<open>
  The camera entries of \<^verbatim>\<open>config.cameras\<close>. Only the fields the stream manager's state
  machine reads are kept; the per-camera transcoder options only shape the command line.
\<close>

record camera =
  cam_id :: string
  cam_name :: string
  rtspUrl :: string

text \<open>
  \<^verbatim>\<open>config.reconnection\<close>. JavaScript numbers are binary64 floats; they are modelled as
  reals. With the configured values every intermediate result below the cap is
  \<open>1000 * 3^n / 2^n\<close> for \<open>n \<le> 8\<close>, a dyadic rational with a numerator far below
  \<open>2^53\<close>, so it is represented exactly; above the cap \<open>Math.min\<close> discards the power.
\<close>

record reconnection =
  initialDelay :: real
  maxDelay :: real
  backoffMultiplier :: real

definition config_reconnection :: reconnection where
  "config_reconnection =
     \<lparr>initialDelay = 1000, maxDelay = 30000, backoffMultiplier = 3 / 2\<rparr>"

record config =
  cameras :: "camera list"
  reconnection :: reconnection

section \<open>Backoff delay (\<^verbatim>\<open>_calculateReconnectDelay\<close>)\<close>

definition calculateReconnectDelay :: "reconnection \<Rightarrow> nat \<Rightarrow> int" where
  "calculateReconnectDelay r reconnectAttempts =
     (let delay = min (initialDelay r * backoffMultiplier r ^ reconnectAttempts) (maxDelay r)
      in \<lfloor>delay\<rfloor>)"

section \<open>Stream manager state (streamManager.js)\<close>

text \<open>
  One entry of \<^verbatim>\<open>this.streams\<close>. Process and timer handles are opaque objects in
  Node.js; here they are numbers, and a handle that is present (\<open>Some\<close>) is the truthy
  case of the source's tests. The start time is the value of \<^verbatim>\<open>Date.now()\<close> that the
  start event carries.
\<close>

record stream =
  camera :: camera
  ffmpegProcess :: "nat option"
  isStreaming :: bool
  reconnectAttempts :: nat
  reconnectTimer :: "nat option"
  streamStartTime :: "nat option"
  h264ErrorLogged :: "bool option"

text \<open>
  What the manager does to the outside world, newest first: directory preparation,
  launching and killing the transcoder, arming and clearing timers, and the record
  handed to the status callback (camera id, camera name, status, message, isStreaming,
  reconnectAttempts). Console output is not recorded.
\<close>

datatype effect =
    EnsureHlsDirectory string
  | Run nat string
  | Kill nat
  | SetTimeout nat string int
  | ClearTimeout nat
  | StatusChange string string string string bool nat

text \<open>
  The manager object together with the part of the runtime it talks to: the timers
  that are armed and have not fired or been cleared (handle, owning camera, delay), and
  the processes launched so far with the camera their event handlers are bound to.
  \<^verbatim>\<open>this.streams\<close> is a JavaScript Map: an association list in insertion order.
  \<open>onStatusChange\<close> tells whether a callback is registered.
\<close>

record manager =
  cfg :: config
  streams :: "(string \<times> stream) list"
  onStatusChange :: bool
  timers :: "(nat \<times> string \<times> int) list"
  processes :: "(nat \<times> string) list"
  next_timer :: nat
  next_process :: nat
  effects :: "effect list"

definition new_stream :: "camera \<Rightarrow> stream" where
  "new_stream cam =
     \<lparr>camera = cam, ffmpegProcess = None, isStreaming = False, reconnectAttempts = 0,
      reconnectTimer = None, streamStartTime = None, h264ErrorLogged = None\<rparr>"

definition StreamManager :: "config \<Rightarrow> manager" where
  "StreamManager c =
     \<lparr>cfg = c,
      streams = fold (\<lambda>cam al. AList.update (cam_id cam) (new_stream cam) al) (cameras c) [],
      onStatusChange = False, timers = [], processes = [],
      next_timer = 0, next_process = 0, effects = []\<rparr>"

definition setStatusCallback :: "bool \<Rightarrow> manager \<Rightarrow> manager" where
  "setStatusCallback callback m = m\<lparr>onStatusChange := callback\<rparr>"

text \<open>
  \<^verbatim>\<open>cameraId || config.cameras[0]?.id\<close>: a missing or empty identifier is falsy and
  selects the first configured camera; with no camera configured the result is undefined.
\<close>

definition targetCameraId :: "manager \<Rightarrow> string option \<Rightarrow> string option" where
  "targetCameraId m cameraId =
     (let first = (case cameras (cfg m) of [] \<Rightarrow> None | cam # _ \<Rightarrow> Some (cam_id cam))
      in case cameraId of
           None \<Rightarrow> first
         | Some c \<Rightarrow> if c \<noteq> [] then Some c else first)"

definition modify_stream :: "string \<Rightarrow> (stream \<Rightarrow> stream) \<Rightarrow> manager \<Rightarrow> manager" where
  "modify_stream cameraId f m = m\<lparr>streams := AList.map_entry cameraId f (streams m)\<rparr>"

definition emit :: "effect \<Rightarrow> manager \<Rightarrow> manager" where
  "emit e m = m\<lparr>effects := e # effects m\<rparr>"

definition updateStatus :: "string \<Rightarrow> string \<Rightarrow> string \<Rightarrow> manager \<Rightarrow> manager" where
  "updateStatus cameraId status message m =
     (case map_of (streams m) cameraId of
        None \<Rightarrow> m
      | Some s \<Rightarrow>
          if onStatusChange m
          then emit (StatusChange cameraId (cam_name (camera s)) status message
                       (isStreaming s) (reconnectAttempts s)) m
          else m)"

text \<open>
  \<^verbatim>\<open>_ensureHlsDirectory\<close> only touches the file system, which is assumed to let the
  directory be created; the call is recorded.
\<close>

definition ensureHlsDirectory :: "string \<Rightarrow> manager \<Rightarrow> manager" where
  "ensureHlsDirectory cameraId m = emit (EnsureHlsDirectory cameraId) m"

text \<open>
  \<^verbatim>\<open>_startFFmpeg\<close>: the command line built from the configuration is opaque here. The
  new process handle is stored in the stream, and the process is registered with the
  camera its handlers close over.
\<close>

definition startFFmpeg :: "string \<Rightarrow> manager \<Rightarrow> manager" where
  "startFFmpeg cameraId m =
     (case map_of (streams m) cameraId of
        None \<Rightarrow> m
      | Some s \<Rightarrow>
          (let m1 = ensureHlsDirectory cameraId m;
               p = next_process m1;
               m2 = modify_stream cameraId (\<lambda>s. s\<lparr>ffmpegProcess := Some p\<rparr>) m1;
               m3 = m2\<lparr>processes := AList.update p cameraId (processes m2),
                        next_process := Suc p\<rparr>
           in emit (Run p cameraId) m3))"

definition startStream :: "string option \<Rightarrow> manager \<Rightarrow> manager" where
  "startStream cameraId m =
     (case targetCameraId m cameraId of
        None \<Rightarrow> m
      | Some t \<Rightarrow>
          (case map_of (streams m) t of
             None \<Rightarrow> m
           | Some s \<Rightarrow>
               if isStreaming s then m
               else startFFmpeg t (ensureHlsDirectory t m)))"

definition stopStream :: "string option \<Rightarrow> manager \<Rightarrow> manager" where
  "stopStream cameraId m =
     (case targetCameraId m cameraId of
        None \<Rightarrow> m
      | Some t \<Rightarrow>
          (case map_of (streams m) t of
             None \<Rightarrow> m
           | Some s \<Rightarrow>
               (let m1 = (case reconnectTimer s of
                            None \<Rightarrow> m
                          | Some h \<Rightarrow>
                              modify_stream t (\<lambda>s. s\<lparr>reconnectTimer := None\<rparr>)
                                (emit (ClearTimeout h)
                                   (m\<lparr>timers := AList.delete h (timers m)\<rparr>)));
                    m2 = (case ffmpegProcess s of
                            None \<Rightarrow> m1
                          | Some p \<Rightarrow>
                              modify_stream t (\<lambda>s. s\<lparr>ffmpegProcess := None\<rparr>)
                                (emit (Kill p) m1));
                    m3 = modify_stream t
                           (\<lambda>s. s\<lparr>isStreaming := False, reconnectAttempts := 0\<rparr>) m2
                in updateStatus t ''stopped'' [] m3)))"

fun startAllStreams :: "manager \<Rightarrow> manager" where
  "startAllStreams m = fold (\<lambda>cam. startStream (Some (cam_id cam))) (cameras (cfg m)) m"

fun stopAllStreams :: "manager \<Rightarrow> manager" where
  "stopAllStreams m = fold (\<lambda>cam. stopStream (Some (cam_id cam))) (cameras (cfg m)) m"

subsection \<open>Status queries\<close>

text \<open>
  \<^verbatim>\<open>getStatus\<close> returns null, one status object, or an object with one property per
  camera. The latter is given as the list of its properties in the order in which a
  JavaScript object enumerates them: the keys that are array indices (the canonical
  decimal form of an integer below \<open>2^32 - 1\<close>) first, in ascending numeric order, then
  the other keys in insertion order, here the order of \<^verbatim>\<open>this.streams\<close>. The
  assignment to the key \<^verbatim>\<open>__proto__\<close> sets the prototype of the object and adds no
  property. The identifier is tested for truthiness, so the empty string asks for all
  cameras.
\<close>

record status_record =
  st_cameraId :: string
  st_cameraName :: string
  st_isStreaming :: bool
  st_reconnectAttempts :: nat

datatype status_result =
    Null
  | Status status_record
  | AllStatus "(string \<times> status_record) list"

definition is_digit :: "char \<Rightarrow> bool" where
  "is_digit c = (48 \<le> (of_char c :: nat) \<and> (of_char c :: nat) \<le> 57)"

definition parse_decimal :: "string \<Rightarrow> nat" where
  "parse_decimal s = foldl (\<lambda>n c. 10 * n + (of_char c - 48)) 0 s"

definition array_index :: "string \<Rightarrow> nat option" where
  "array_index s =
     (if s \<noteq> [] \<and> list_all is_digit s \<and> (s = ''0'' \<or> hd s \<noteq> CHR ''0'')
         \<and> parse_decimal s < 4294967295
      then Some (parse_decimal s) else None)"

definition property_order :: "(string \<times> 'a) list \<Rightarrow> (string \<times> 'a) list" where
  "property_order ps =
     sort_key (\<lambda>p. case array_index (fst p) of Some n \<Rightarrow> n | None \<Rightarrow> 0)
       (filter (\<lambda>p. array_index (fst p) \<noteq> None) ps)
     @ filter (\<lambda>p. array_index (fst p) = None) ps"

definition status_of :: "string \<Rightarrow> stream \<Rightarrow> status_record" where
  "status_of cameraId s =
     \<lparr>st_cameraId = cameraId, st_cameraName = cam_name (camera s),
      st_isStreaming = isStreaming s, st_reconnectAttempts = reconnectAttempts s\<rparr>"

definition allStatus :: "manager \<Rightarrow> (string \<times> status_record) list" where
  "allStatus m =
     property_order
       (map (\<lambda>(k, s). (k, status_of k s)) (filter (\<lambda>(k, s). k \<noteq> ''__proto__'') (streams m)))"

definition getStatus :: "string option \<Rightarrow> manager \<Rightarrow> status_result" where
  "getStatus cameraId m =
     (case cameraId of
        None \<Rightarrow> AllStatus (allStatus m)
      | Some c \<Rightarrow>
          if c \<noteq> [] then
            (case map_of (streams m) c of
               None \<Rightarrow> Null
             | Some s \<Rightarrow> Status (status_of c s))
          else AllStatus (allStatus m))"

subsection \<open>Reconnection\<close>

definition scheduleReconnect :: "string \<Rightarrow> manager \<Rightarrow> manager" where
  "scheduleReconnect cameraId m =
     (case map_of (streams m) cameraId of
        None \<Rightarrow> m
      | Some s \<Rightarrow>
          if reconnectTimer s \<noteq> None then m
          else
            (let delay = calculateReconnectDelay (reconnection (cfg m)) (reconnectAttempts s);
                 h = next_timer m;
                 m1 = emit (SetTimeout h cameraId delay)
                        (m\<lparr>timers := AList.update h (cameraId, delay) (timers m),
                           next_timer := Suc h\<rparr>)
             in modify_stream cameraId (\<lambda>s. s\<lparr>reconnectTimer := Some h\<rparr>) m1))"

function decimal :: "nat \<Rightarrow> string" where
  "decimal n =
     (if n < 10 then [char_of (48 + n)]
      else decimal (n div 10) @ [char_of (48 + n mod 10)])"
  by pat_completeness auto
termination
  by (relation "measure id") auto

declare decimal.simps [simp del]

text \<open>The function passed to \<^verbatim>\<open>setTimeout\<close> in \<^verbatim>\<open>_scheduleReconnect\<close>.\<close>

definition reconnectCallback :: "string \<Rightarrow> manager \<Rightarrow> manager" where
  "reconnectCallback cameraId m =
     (case map_of (streams m) cameraId of
        None \<Rightarrow> m
      | Some s \<Rightarrow>
          (let m1 = modify_stream cameraId
                      (\<lambda>s. s\<lparr>reconnectTimer := None,
                               reconnectAttempts := Suc (reconnectAttempts s)\<rparr>) m;
               m2 = updateStatus cameraId ''reconnecting''
                      (''Attempt '' @ decimal (Suc (reconnectAttempts s))) m1
           in startFFmpeg cameraId m2))"

subsection \<open>Process event handlers\<close>

fun starts_with :: "'a list \<Rightarrow> 'a list \<Rightarrow> bool" where
  "starts_with s [] = True"
| "starts_with [] (p # ps) = False"
| "starts_with (c # cs) (p # ps) = (c = p \<and> starts_with cs ps)"

fun str_includes :: "'a list \<Rightarrow> 'a list \<Rightarrow> bool" where
  "str_includes [] sub = (sub = [])"
| "str_includes (c # cs) sub = (starts_with (c # cs) sub \<or> str_includes cs sub)"

definition isDecodingError :: "string \<Rightarrow> bool" where
  "isDecodingError message =
     (str_includes message ''decode''
      \<or> str_includes message ''Invalid data''
      \<or> str_includes message ''error while decoding'')"

definition onStart :: "string \<Rightarrow> nat \<Rightarrow> manager \<Rightarrow> manager" where
  "onStart cameraId now m =
     updateStatus cameraId ''streaming'' []
       (modify_stream cameraId
          (\<lambda>s. s\<lparr>isStreaming := True, reconnectAttempts := 0,
                   streamStartTime := Some now, h264ErrorLogged := Some False\<rparr>) m)"

definition onError :: "string \<Rightarrow> string \<Rightarrow> manager \<Rightarrow> manager" where
  "onError cameraId message m =
     (case map_of (streams m) cameraId of
        None \<Rightarrow> m
      | Some s \<Rightarrow>
          if isDecodingError message \<and> isStreaming s then m
          else
            scheduleReconnect cameraId
              (updateStatus cameraId ''error'' message
                 (modify_stream cameraId
                    (\<lambda>s. s\<lparr>isStreaming := False, ffmpegProcess := None\<rparr>) m)))"

definition onEnd :: "string \<Rightarrow> manager \<Rightarrow> manager" where
  "onEnd cameraId m =
     scheduleReconnect cameraId
       (updateStatus cameraId ''ended'' []
          (modify_stream cameraId
             (\<lambda>s. s\<lparr>isStreaming := False, ffmpegProcess := None\<rparr>) m))"

subsection \<open>Executions\<close>

text \<open>
  Everything that can happen to a manager: calls of its public methods, events of a
  launched process (delivered to the handlers bound to that process's camera), and the
  firing of a timer. The runtime fires only a timer that is still armed, and a fired
  timer is no longer armed when its callback runs. Process events are not restricted:
  any launched process may emit any event at any time.
\<close>

datatype event =
    StartStream "string option"
  | StopStream "string option"
  | StartAll
  | StopAll
  | SetStatusCallback bool
  | ProcessStart nat nat
  | ProcessError nat string
  | ProcessEnd nat
  | TimerFired nat

definition timerFired :: "nat \<Rightarrow> manager \<Rightarrow> manager" where
  "timerFired h m =
     (case map_of (timers m) h of
        None \<Rightarrow> m
      | Some (cameraId, delay) \<Rightarrow>
          reconnectCallback cameraId (m\<lparr>timers := AList.delete h (timers m)\<rparr>))"

fun step :: "event \<Rightarrow> manager \<Rightarrow> manager" where
  "step (StartStream cameraId) m = startStream cameraId m"
| "step (StopStream cameraId) m = stopStream cameraId m"
| "step StartAll m = startAllStreams m"
| "step StopAll m = stopAllStreams m"
| "step (SetStatusCallback callback) m = setStatusCallback callback m"
| "step (ProcessStart p now) m =
     (case map_of (processes m) p of None \<Rightarrow> m | Some cameraId \<Rightarrow> onStart cameraId now m)"
| "step (ProcessError p message) m =
     (case map_of (processes m) p of None \<Rightarrow> m | Some cameraId \<Rightarrow> onError cameraId message m)"
| "step (ProcessEnd p) m =
     (case map_of (processes m) p of None \<Rightarrow> m | Some cameraId \<Rightarrow> onEnd cameraId m)"
| "step (TimerFired h) m = timerFired h m"

definition run :: "event list \<Rightarrow> manager \<Rightarrow> manager" where
  "run evs m = fold step evs m"

text \<open>The timers armed for one camera, as the runtime holds them.\<close>

definition pending_timers :: "string \<Rightarrow> manager \<Rightarrow> nat list" where
  "pending_timers cameraId m = map fst (filter (\<lambda>t. fst (snd t) = cameraId) (timers m))"

section \<open>Auxiliary notions for the proofs\<close>

text \<open>The timer handle a camera's stream entry records, if the camera is known.\<close>

definition recorded_timer :: "manager \<Rightarrow> string \<Rightarrow> nat option" where
  "recorded_timer m c =
     (case map_of (streams m) c of None \<Rightarrow> None | Some s \<Rightarrow> reconnectTimer s)"

text \<open>
  Every armed timer is the one its camera's stream entry records, and handles are not
  shared between armed timers.
\<close>

definition timer_inv :: "manager \<Rightarrow> bool" where
  "timer_inv m =
     (\<forall>h c d. map_of (timers m) h = Some (c, d) \<longrightarrow> recorded_timer m c = Some h)"

definition distinct_timers :: "manager \<Rightarrow> bool" where
  "distinct_timers m = distinct (map fst (timers m))"

text \<open>An effect with the status tag and message of a status notification blanked.\<close>

fun without_status_tag :: "effect \<Rightarrow> effect" where
  "without_status_tag (StatusChange c n status message i r) = StatusChange c n [] [] i r"
| "without_status_tag e = e"

text \<open>A configuration with a single camera, for concrete runs.\<close>

definition cam1 :: camera where
  "cam1 = \<lparr>cam_id = ''cam1'', cam_name = ''Front door'',
            rtspUrl = ''rtsp://10.0.0.2/stream''\<rparr>"

definition cfg1 :: config where
  "cfg1 = \<lparr>cameras = [cam1], reconnection = config_reconnection\<rparr>"

text \<open>
  Runs of that configuration: the camera streaming with a status callback registered;
  the camera after its process has ended, with reconnect timer 0 armed, without and
  with a callback; the camera after two failed attempts, waiting for the start event of
  process 2; the camera launched and still waiting for the start event of process 0;
  and the camera stopped while process 1, launched by timer 0, was streaming.
\<close>

definition streaming_run :: manager where
  "streaming_run =
     run [SetStatusCallback True, StartStream None, ProcessStart 0 5] (StreamManager cfg1)"

definition armed_run :: manager where
  "armed_run = run [StartStream None, ProcessStart 0 5, ProcessEnd 0] (StreamManager cfg1)"

definition armed_observed_run :: manager where
  "armed_observed_run =
     run [SetStatusCallback True, StartStream None, ProcessStart 0 5, ProcessEnd 0]
       (StreamManager cfg1)"

definition retrying_run :: manager where
  "retrying_run =
     run [StartStream (Some ''cam1''), ProcessError 0 ''gone'', TimerFired 0,
          ProcessEnd 1, TimerFired 1] (StreamManager cfg1)"

definition starting_run :: manager where
  "starting_run = run [StartStream (Some ''cam1'')] (StreamManager cfg1)"

definition stopped_run :: manager where
  "stopped_run =
     run [StartStream None, ProcessStart 0 5, ProcessEnd 0, TimerFired 0, ProcessStart 1 9,
          StopStream (Some ''cam1'')] (StreamManager cfg1)"

section \<open>Playlist endpoint (server.js)\<close>

text \<open>
  JavaScript strings are sequences of UTF-16 code units, given here as numbers; the
  regular expressions of the handler have no \<^verbatim>\<open>u\<close> flag and work on code units.
  \<open>js\<close> turns a literal of this theory into such a string.
\<close>

type_synonym js_string = "nat list"

definition js :: "string \<Rightarrow> js_string" where
  "js s = map of_char s"

text \<open>
  What the file system answers for the playlist path of a camera: no file
  (\<^verbatim>\<open>existsSync\<close> is false), a file whose read throws, or the decoded text.
\<close>

datatype playlist_file = Missing | Unreadable | Content js_string

record response =
  status :: nat
  headers :: "(string \<times> string) list"
  body :: js_string

text \<open>
  The class \<^verbatim>\<open>\s\<close> of ECMAScript: the white space code points (tab, vertical tab, form
  feed, space, no-break space, U+FEFF and the space separators U+1680, U+2000 to
  U+200A, U+202F, U+205F, U+3000) and the line terminators. The line terminators, at
  which \<^verbatim>\<open>^\<close> and \<^verbatim>\<open>$\<close> match under the \<^verbatim>\<open>m\<close> flag, are line feed, carriage
  return, U+2028 and U+2029.
\<close>

definition is_line_terminator :: "nat \<Rightarrow> bool" where
  "is_line_terminator u = (u \<in> set [0x0A, 0x0D, 0x2028, 0x2029])"

definition is_space :: "nat \<Rightarrow> bool" where
  "is_space u =
     (u \<in> set [0x09, 0x0B, 0x0C, 0x20, 0xA0, 0x1680, 0x202F, 0x205F, 0x3000, 0xFEFF]
      \<or> (0x2000 \<le> u \<and> u \<le> 0x200A)
      \<or> is_line_terminator u)"

definition endlist :: js_string where
  "endlist = js ''#EXT-X-ENDLIST''"

text \<open>
  \<^verbatim>\<open>replace(/#EXT-X-ENDLIST\s*\n?/g, "")\<close>: scanning from the left, every occurrence of the
  marker is dropped together with all white space after it (the greedy \<^verbatim>\<open>\s*\<close>
  already takes any line feed, so \<^verbatim>\<open>\n?\<close> matches nothing more).
\<close>

function strip_endlist :: "js_string \<Rightarrow> js_string" where
  "strip_endlist [] = []"
| "strip_endlist (u # us) =
     (if starts_with (u # us) endlist
      then strip_endlist (dropWhile is_space (drop (length endlist) (u # us)))
      else u # strip_endlist us)"
  by pat_completeness auto
termination
proof (relation "measure length")
  fix u :: nat and us :: js_string
  have "length (dropWhile is_space (drop (length endlist) (u # us)))
          \<le> length (drop (length endlist) (u # us))"
    by (rule length_dropWhile_le)
  also have "\<dots> < length (u # us)"
    by (simp add: endlist_def js_def)
  finally show "(dropWhile is_space (drop (length endlist) (u # us)), u # us) \<in> measure length"
    by simp
qed simp_all

text \<open>
  One match attempt of \<^verbatim>\<open>/^([^#\/\s][^\s]*\.ts)$/m\<close> at the start of a line. The match
  cannot cross white space and must end before a line terminator or at the end of the
  text, so it is the whole run of non-space code units at the start of the line, which
  must have a first code unit other than \<^verbatim>\<open>#\<close> and \<^verbatim>\<open>/\<close>, then end in \<^verbatim>\<open>.ts\<close>,
  and be followed by a line terminator or by nothing. The result is the matched text
  (also capture group 1) and the rest of the input.
\<close>

definition ends_with :: "'a list \<Rightarrow> 'a list \<Rightarrow> bool" where
  "ends_with s p = starts_with (rev s) (rev p)"

definition match_segment :: "js_string \<Rightarrow> (js_string \<times> js_string) option" where
  "match_segment s =
     (let w = takeWhile (\<lambda>u. \<not> is_space u) s;
          rest = dropWhile (\<lambda>u. \<not> is_space u) s
      in if 4 \<le> length w \<and> hd w \<noteq> of_char CHR ''#'' \<and> hd w \<noteq> of_char CHR ''/''
            \<and> ends_with w (js ''.ts'')
            \<and> (rest = [] \<or> is_line_terminator (hd rest))
         then Some (w, rest) else None)"

text \<open>
  The replacement text of \<^verbatim>\<open>String.prototype.replace\<close> for a pattern with one capture
  group and no named groups (ECMAScript GetSubstitution): \<^verbatim>\<open>$$\<close> is a dollar sign,
  \<^verbatim>\<open>$&\<close> the match, \<^verbatim>\<open>$`\<close> and \<^verbatim>\<open>$'\<close> the text before and after the match,
  \<^verbatim>\<open>$1\<close> and \<^verbatim>\<open>$01\<close> the capture; any other dollar sign stands for itself.
\<close>

fun getSubstitution ::
  "js_string \<Rightarrow> js_string \<Rightarrow> js_string \<Rightarrow> js_string \<Rightarrow> js_string \<Rightarrow> js_string" where
  "getSubstitution matched pre post capture [] = []"
| "getSubstitution matched pre post capture (x # xs) =
     (if x = of_char CHR ''$'' then
        (case xs of
           [] \<Rightarrow> [x]
         | y # ys \<Rightarrow>
             if y = of_char CHR ''$''
               then of_char CHR ''$'' # getSubstitution matched pre post capture ys
             else if y = of_char CHR ''&''
               then matched @ getSubstitution matched pre post capture ys
             else if y = 0x60 then pre @ getSubstitution matched pre post capture ys
             else if y = 0x27 then post @ getSubstitution matched pre post capture ys
             else if y = of_char CHR ''1''
               then capture @ getSubstitution matched pre post capture ys
             else if y = of_char CHR ''0'' \<and> ys \<noteq> [] \<and> hd ys = of_char CHR ''1''
               then capture @ getSubstitution matched pre post capture (tl ys)
             else x # getSubstitution matched pre post capture xs)
      else x # getSubstitution matched pre post capture xs)"

text \<open>
  \<^verbatim>\<open>replace(/^([^#\/\s][^\s]*\.ts)$/gm, template)\<close>: the scan keeps the text already
  passed and whether the position is the start of a line.
\<close>

function rewrite_segments :: "js_string \<Rightarrow> js_string \<Rightarrow> bool \<Rightarrow> js_string \<Rightarrow> js_string" where
  "rewrite_segments template pre bol [] = []"
| "rewrite_segments template pre bol (u # us) =
     (case (if bol then match_segment (u # us) else None) of
        Some (matched, rest) \<Rightarrow>
          getSubstitution matched pre rest matched template
            @ rewrite_segments template (pre @ matched) False rest
      | None \<Rightarrow>
          u # rewrite_segments template (pre @ [u]) (is_line_terminator u) us)"
  by pat_completeness auto
termination
proof (relation "measure (\<lambda>(template, pre, bol, s). length s)", goal_cases)
  case (3 template pre bol u us x2 x y)
  then have "match_segment (u # us) = Some (x, y)"
    by (simp split: if_splits)
  then have "y = dropWhile (\<lambda>u. \<not> is_space u) (u # us)"
    and "4 \<le> length (takeWhile (\<lambda>u. \<not> is_space u) (u # us))"
    by (auto simp: match_segment_def Let_def split: if_splits)
  moreover have "length (takeWhile (\<lambda>u. \<not> is_space u) (u # us))
                 + length (dropWhile (\<lambda>u. \<not> is_space u) (u # us)) = length (u # us)"
    by (metis length_append takeWhile_dropWhile_id)
  ultimately show ?case by simp
qed simp_all

text \<open>The template string \<^verbatim>\<open>`/hls/${cameraId}/$1`\<close>.\<close>

definition segment_template :: "js_string \<Rightarrow> js_string" where
  "segment_template cameraId = js ''/hls/'' @ cameraId @ js ''/$1''"

definition emptyPlaylist :: "string \<Rightarrow> js_string" where
  "emptyPlaylist comment =
     js (''#EXTM3U'' @ [CHR 0x0A] @
         ''#EXT-X-VERSION:6'' @ [CHR 0x0A] @
         ''#EXT-X-TARGETDURATION:2'' @ [CHR 0x0A] @
         ''#EXT-X-MEDIA-SEQUENCE:0'' @ [CHR 0x0A] @
         ''#EXT-X-INDEPENDENT-SEGMENTS'' @ [CHR 0x0A] @
         comment @ [CHR 0x0A])"

text \<open>
  The handler of \<^verbatim>\<open>GET /api/stream/:cameraId/playlist.m3u8\<close>. A response that never
  calls \<^verbatim>\<open>res.status\<close> has status 200.
\<close>

definition playlist_handler :: "js_string \<Rightarrow> playlist_file \<Rightarrow> response" where
  "playlist_handler cameraId file =
     (case file of
        Content playlistContent \<Rightarrow>
          \<lparr>status = 200,
           headers = [(''Content-Type'', ''application/vnd.apple.mpegurl''),
                      (''Access-Control-Allow-Origin'', ''*'')],
           body = rewrite_segments (segment_template cameraId) [] True
                    (strip_endlist playlistContent)\<rparr>
      | Missing \<Rightarrow>
          \<lparr>status = 200,
           headers = [(''Content-Type'', ''application/vnd.apple.mpegurl''),
                      (''Access-Control-Allow-Origin'', ''*''),
                      (''Cache-Control'', ''no-cache, no-store, must-revalidate'')],
           body = emptyPlaylist ''# Stream is starting, please wait...''\<rparr>
      | Unreadable \<Rightarrow>
          \<lparr>status = 200,
           headers = [(''Content-Type'', ''application/vnd.apple.mpegurl''),
                      (''Access-Control-Allow-Origin'', ''*''),
                      (''Cache-Control'', ''no-cache, no-store, must-revalidate'')],
           body = emptyPlaylist ''# Error reading playlist, retrying...''\<rparr>)"

subsection \<open>Manifests as lists of lines\<close>


definition join_lines :: "(js_string \<times> nat) list \<Rightarrow> js_string \<Rightarrow> js_string" where
  "join_lines items final = concat (map (\<lambda>(l, t). l @ [t]) items) @ final"

text \<open>Lines split at line feeds only, for texts that end in a line feed.\<close>

fun split_lf :: "js_string \<Rightarrow> js_string \<Rightarrow> js_string list" where
  "split_lf acc [] = (if acc = [] then [] else [acc])"
| "split_lf acc (u # us) =
     (if u = 0x0A then acc # split_lf [] us else split_lf (acc @ [u]) us)"

definition lines_lf :: "js_string \<Rightarrow> js_string list" where
  "lines_lf s = split_lf [] s"

definition is_directive :: "js_string \<Rightarrow> bool" where
  "is_directive l = (l \<noteq> [] \<and> hd l = of_char CHR ''#'')"

text \<open>
  A bare segment file name: no white space, at least one code unit before \<^verbatim>\<open>.ts\<close>, and
  a first code unit other than \<^verbatim>\<open>#\<close> and \<^verbatim>\<open>/\<close>.
\<close>

definition is_segment_line :: "js_string \<Rightarrow> bool" where
  "is_segment_line l =
     (list_all (\<lambda>u. \<not> is_space u) l \<and> 4 \<le> length l
      \<and> hd l \<noteq> of_char CHR ''#'' \<and> hd l \<noteq> of_char CHR ''/'' \<and> ends_with l (js ''.ts''))"

definition render_line :: "js_string \<Rightarrow> js_string \<Rightarrow> js_string" where
  "render_line cameraId l =
     (if is_segment_line l then js ''/hls/'' @ cameraId @ js ''/'' @ l else l)"

text \<open>
  An end-marker line is the marker followed by nothing but white space. The rendering is
  specified for manifests in which every line is an end-marker line or free of the
  marker.
\<close>

definition endlist_line :: "js_string \<Rightarrow> bool" where
  "endlist_line l = (starts_with l endlist \<and> list_all is_space (drop (length endlist) l))"

definition marker_on_own_line :: "js_string \<Rightarrow> bool" where
  "marker_on_own_line l = (endlist_line l \<or> \<not> str_includes l endlist)"

text \<open>
  What the removal of the end marker does to the lines: an end-marker line disappears
  with its terminator, and so does the white space that follows it, that is every
  following line of white space only and the white space at the start of the next
  other line. The flag tells whether the scan is inside such white space.
\<close>

fun strip_lines ::
  "bool \<Rightarrow> (js_string \<times> nat) list \<Rightarrow> js_string \<Rightarrow> (js_string \<times> nat) list \<times> js_string" where
  "strip_lines eat [] final =
     (let l = (if eat then dropWhile is_space final else final)
      in ([], if endlist_line l then [] else l))"
| "strip_lines eat ((l0, t) # items) final =
     (let l = (if eat then dropWhile is_space l0 else l0)
      in if endlist_line l \<or> (eat \<and> l = []) then strip_lines True items final
         else (case strip_lines False items final of (ys, z) \<Rightarrow> ((l, t) # ys, z)))"

text \<open>
  A camera identifier is free of replacement patterns when the template built from it
  stands for itself up to the final \<^verbatim>\<open>$1\<close>.
\<close>

definition pattern_start :: "js_string \<Rightarrow> bool" where
  "pattern_start s =
     (case s of
        x # y # zs \<Rightarrow>
          x = of_char CHR ''$''
          \<and> (y = of_char CHR ''$'' \<or> y = of_char CHR ''&'' \<or> y = 0x60 \<or> y = 0x27
               \<or> y = of_char CHR ''1''
               \<or> (y = of_char CHR ''0'' \<and> zs \<noteq> [] \<and> hd zs = of_char CHR ''1''))
      | _ \<Rightarrow> False)"




text \<open>
  Lines that the removal of the end marker leaves alone: not empty, not starting with
  white space, and not an end-marker line.
\<close>

definition clean_line :: "js_string \<Rightarrow> bool" where
  "clean_line l = (l \<noteq> [] \<and> \<not> is_space (hd l) \<and> \<not> endlist_line l)"


section \<open>Properties of the backoff delay\<close>

lemma delay_mono:
  assumes "m \<le> n"
  shows "calculateReconnectDelay config_reconnection m
           \<le> calculateReconnectDelay config_reconnection n"
proof -
  have "(3 / 2 :: real) ^ m \<le> (3 / 2) ^ n"
    using assms by (intro power_increasing) simp_all
  then have "min (1000 * (3 / 2 :: real) ^ m) 30000 \<le> min (1000 * (3 / 2) ^ n) 30000"
    by (simp add: min_le_iff_disj)
  then show ?thesis
    by (simp add: calculateReconnectDelay_def config_reconnection_def floor_mono)
qed

lemma delay_capped:
  assumes "9 \<le> n"
  shows "calculateReconnectDelay config_reconnection n = 30000"
proof -
  have "(3 / 2 :: real) ^ 9 \<le> (3 / 2) ^ n"
    using assms by (intro power_increasing) simp_all
  moreover have "(30 :: real) < (3 / 2) ^ 9"
    by (simp add: power_divide)
  ultimately have "(30000 :: real) \<le> 1000 * (3 / 2) ^ n"
    by linarith
  then have "min (1000 * (3 / 2 :: real) ^ n) 30000 = 30000"
    by simp
  then show ?thesis
    by (simp add: calculateReconnectDelay_def config_reconnection_def)
qed

lemma delay_below_cap:
  assumes "n \<le> 8"
  shows "calculateReconnectDelay config_reconnection n < 30000"
proof -
  have "(3 / 2 :: real) ^ n \<le> (3 / 2) ^ 8"
    using assms by (intro power_increasing) simp_all
  moreover have "(3 / 2 :: real) ^ 8 < 26"
    by (simp add: power_divide)
  ultimately have "1000 * (3 / 2 :: real) ^ n < 26000"
    by linarith
  then have "min (1000 * (3 / 2 :: real) ^ n) 30000 < 26000"
    by simp
  then have "\<lfloor>min (1000 * (3 / 2 :: real) ^ n) 30000\<rfloor> < 26000"
    by (simp add: floor_less_iff)
  then show ?thesis
    by (simp add: calculateReconnectDelay_def config_reconnection_def)
qed

text \<open>
  Below the cap the product under \<open>Math.min\<close> is a multiple of \<open>2^-8\<close> with a
  numerator below \<open>2^53\<close>, so the binary64 arithmetic of the source is exact there and
  the real-number model computes the same value.
\<close>

lemma delay_exact:
  assumes "n \<le> 8"
  shows "\<exists>k::nat. k < 2 ^ 53 \<and> initialDelay config_reconnection
            * backoffMultiplier config_reconnection ^ n = real k / 2 ^ 8"
proof -
  have "initialDelay config_reconnection * backoffMultiplier config_reconnection ^ n
          = real (1000 * 3 ^ n * 2 ^ (8 - n)) / 2 ^ 8"
    using assms
    by (simp add: config_reconnection_def power_divide field_simps flip: power_add)
  moreover have "(3::nat) ^ n \<le> 3 ^ 8" "(2::nat) ^ (8 - n) \<le> 2 ^ 8"
    using assms by (intro power_increasing; simp)+
  then have "1000 * (3::nat) ^ n * 2 ^ (8 - n) \<le> 1000 * 3 ^ 8 * 2 ^ 8"
    by (intro mult_mono) simp_all
  then have "1000 * (3::nat) ^ n * 2 ^ (8 - n) < 2 ^ 53"
    by simp
  ultimately show ?thesis by blast
qed

text \<open>
  C2. With the configured parameters (1000, 1.5, 30000) the reconnect delay for attempt
  count \<open>n\<close> is \<open>min (1000 * 1.5 ^ n) 30000\<close> rounded down to an integer; it never
  decreases when \<open>n\<close> grows; it is 30000 for every \<open>n\<close> from 9 on, and stays below
  30000 up to \<open>n = 8\<close>, which fixes the crossover point.
\<close>

theorem C2_reconnect_delay:
  "calculateReconnectDelay config_reconnection n = \<lfloor>min (1000 * (3 / 2) ^ n) (30000 :: real)\<rfloor>
   \<and> (m \<le> n \<longrightarrow> calculateReconnectDelay config_reconnection m
                   \<le> calculateReconnectDelay config_reconnection n)
   \<and> (9 \<le> n \<longrightarrow> calculateReconnectDelay config_reconnection n = 30000)
   \<and> (n \<le> 8 \<longrightarrow> calculateReconnectDelay config_reconnection n < 30000)"
  using delay_mono [of m n] delay_capped [of n] delay_below_cap [of n]
  by (simp add: calculateReconnectDelay_def config_reconnection_def)

theorem C2_reconnect_delay_witness:
  "calculateReconnectDelay config_reconnection 3 = 3375
   \<and> calculateReconnectDelay config_reconnection 8 = 25628
   \<and> calculateReconnectDelay config_reconnection 12 = 30000
   \<and> (3::nat) \<le> 12 \<and> (9::nat) \<le> 12 \<and> (8::nat) \<le> 8
   \<and> calculateReconnectDelay config_reconnection 3
        \<le> calculateReconnectDelay config_reconnection 12
   \<and> calculateReconnectDelay config_reconnection 8 < 30000"
  using C2_reconnect_delay [of 3 3] C2_reconnect_delay [of 8 8] C2_reconnect_delay [of 12 3]
  by (simp add: power_divide)

section \<open>Evaluating concrete runs\<close>

lemmas eval_defs = streaming_run_def armed_run_def armed_observed_run_def retrying_run_def
  starting_run_def stopped_run_def run_def StreamManager_def
  cfg1_def cam1_def new_stream_def startStream_def
  stopStream_def targetCameraId_def startFFmpeg_def ensureHlsDirectory_def emit_def
  modify_stream_def updateStatus_def onStart_def onError_def onEnd_def scheduleReconnect_def
  timerFired_def reconnectCallback_def isDecodingError_def pending_timers_def
  calculateReconnectDelay_def config_reconnection_def setStatusCallback_def Let_def

section \<open>Stream manager: how each operation changes the state\<close>

lemma map_entry_None: "map_of xs k = None \<Longrightarrow> AList.map_entry k f xs = xs"
  by (induction xs) (auto split: if_splits)

lemma map_entry_same: "map_of xs k = Some v \<Longrightarrow> f v = v \<Longrightarrow> AList.map_entry k f xs = xs"
  by (induction xs) (auto split: if_splits)

lemma emit_fields [simp]:
  "cfg (emit e m) = cfg m" "streams (emit e m) = streams m"
  "onStatusChange (emit e m) = onStatusChange m" "timers (emit e m) = timers m"
  "processes (emit e m) = processes m" "next_timer (emit e m) = next_timer m"
  "next_process (emit e m) = next_process m" "effects (emit e m) = e # effects m"
  by (simp_all add: emit_def)

lemma modify_stream_fields [simp]:
  "cfg (modify_stream c f m) = cfg m"
  "streams (modify_stream c f m) = AList.map_entry c f (streams m)"
  "onStatusChange (modify_stream c f m) = onStatusChange m"
  "timers (modify_stream c f m) = timers m"
  "processes (modify_stream c f m) = processes m"
  "next_timer (modify_stream c f m) = next_timer m"
  "next_process (modify_stream c f m) = next_process m"
  "effects (modify_stream c f m) = effects m"
  by (simp_all add: modify_stream_def)

lemma updateStatus_fields [simp]:
  "cfg (updateStatus c st msg m) = cfg m"
  "streams (updateStatus c st msg m) = streams m"
  "onStatusChange (updateStatus c st msg m) = onStatusChange m"
  "timers (updateStatus c st msg m) = timers m"
  "processes (updateStatus c st msg m) = processes m"
  "next_timer (updateStatus c st msg m) = next_timer m"
  "next_process (updateStatus c st msg m) = next_process m"
  by (simp_all add: updateStatus_def split: option.splits)

lemma ensureHlsDirectory_fields [simp]:
  "cfg (ensureHlsDirectory c m) = cfg m"
  "streams (ensureHlsDirectory c m) = streams m"
  "onStatusChange (ensureHlsDirectory c m) = onStatusChange m"
  "timers (ensureHlsDirectory c m) = timers m"
  "processes (ensureHlsDirectory c m) = processes m"
  "next_timer (ensureHlsDirectory c m) = next_timer m"
  "next_process (ensureHlsDirectory c m) = next_process m"
  "effects (ensureHlsDirectory c m) = EnsureHlsDirectory c # effects m"
  by (simp_all add: ensureHlsDirectory_def)

lemma startFFmpeg_fields [simp]:
  "cfg (startFFmpeg c m) = cfg m"
  "onStatusChange (startFFmpeg c m) = onStatusChange m"
  "timers (startFFmpeg c m) = timers m"
  "next_timer (startFFmpeg c m) = next_timer m"
  by (simp_all add: startFFmpeg_def Let_def split: option.splits)

lemma startFFmpeg_streams:
  "streams (startFFmpeg c m) =
     AList.map_entry c (\<lambda>s. s\<lparr>ffmpegProcess := Some (next_process m)\<rparr>) (streams m)"
  by (simp add: startFFmpeg_def Let_def map_entry_None split: option.splits)

lemma startStream_fields [simp]:
  "cfg (startStream c m) = cfg m"
  "onStatusChange (startStream c m) = onStatusChange m"
  "timers (startStream c m) = timers m"
  "next_timer (startStream c m) = next_timer m"
  by (simp_all add: startStream_def split: option.splits)

lemma scheduleReconnect_fields [simp]:
  "cfg (scheduleReconnect c m) = cfg m"
  "onStatusChange (scheduleReconnect c m) = onStatusChange m"
  "processes (scheduleReconnect c m) = processes m"
  "next_process (scheduleReconnect c m) = next_process m"
  by (simp_all add: scheduleReconnect_def Let_def split: option.splits)

lemma stopStream_fields [simp]:
  "cfg (stopStream c m) = cfg m"
  "onStatusChange (stopStream c m) = onStatusChange m"
  "processes (stopStream c m) = processes m"
  "next_timer (stopStream c m) = next_timer m"
  "next_process (stopStream c m) = next_process m"
  by (simp_all add: stopStream_def Let_def split: option.splits)

lemma reconnectCallback_fields [simp]:
  "cfg (reconnectCallback c m) = cfg m"
  "onStatusChange (reconnectCallback c m) = onStatusChange m"
  "timers (reconnectCallback c m) = timers m"
  "next_timer (reconnectCallback c m) = next_timer m"
  by (simp_all add: reconnectCallback_def Let_def split: option.splits)

lemma onStart_fields [simp]:
  "cfg (onStart c now m) = cfg m"
  "onStatusChange (onStart c now m) = onStatusChange m"
  "timers (onStart c now m) = timers m"
  "processes (onStart c now m) = processes m"
  "next_timer (onStart c now m) = next_timer m"
  "next_process (onStart c now m) = next_process m"
  by (simp_all add: onStart_def)

lemma onError_fields [simp]:
  "cfg (onError c msg m) = cfg m"
  "onStatusChange (onError c msg m) = onStatusChange m"
  "processes (onError c msg m) = processes m"
  "next_process (onError c msg m) = next_process m"
  by (simp_all add: onError_def split: option.splits)

lemma onEnd_fields [simp]:
  "cfg (onEnd c m) = cfg m"
  "onStatusChange (onEnd c m) = onStatusChange m"
  "processes (onEnd c m) = processes m"
  "next_process (onEnd c m) = next_process m"
  by (simp_all add: onEnd_def)

lemma timerFired_fields [simp]:
  "cfg (timerFired h m) = cfg m"
  "onStatusChange (timerFired h m) = onStatusChange m"
  "next_timer (timerFired h m) = next_timer m"
  by (simp_all add: timerFired_def split: option.splits)

subsection \<open>Armed timers after each operation\<close>

lemma timers_scheduleReconnect:
  "timers (scheduleReconnect c m) =
     (case map_of (streams m) c of
        None \<Rightarrow> timers m
      | Some s \<Rightarrow>
          if reconnectTimer s \<noteq> None then timers m
          else AList.update (next_timer m)
                 (c, calculateReconnectDelay (reconnection (cfg m)) (reconnectAttempts s))
                 (timers m))"
  by (simp add: scheduleReconnect_def Let_def split: option.splits)

lemma timers_stopStream:
  "timers (stopStream c m) =
     (case targetCameraId m c of
        None \<Rightarrow> timers m
      | Some t \<Rightarrow> (case recorded_timer m t of
                     None \<Rightarrow> timers m
                   | Some h \<Rightarrow> AList.delete h (timers m)))"
  by (simp add: stopStream_def recorded_timer_def Let_def split: option.splits)

lemma timers_timerFired:
  "timers (timerFired h m) =
     (case map_of (timers m) h of None \<Rightarrow> timers m | Some x \<Rightarrow> AList.delete h (timers m))"
  by (simp add: timerFired_def split: option.splits)

lemma timers_onError:
  "timers (onError c msg m) = timers m
   \<or> (\<exists>h v. timers (onError c msg m) = AList.update h v (timers m))"
  by (auto simp: onError_def timers_scheduleReconnect split: option.splits)

lemma timers_onEnd:
  "timers (onEnd c m) = timers m
   \<or> (\<exists>h v. timers (onEnd c m) = AList.update h v (timers m))"
  by (auto simp: onEnd_def timers_scheduleReconnect split: option.splits)

subsection \<open>The recorded timer handle after each operation\<close>

lemmas al_simps = map_of_map_entry update_conv' delete_conv'

lemma recorded_timer_emit [simp]: "recorded_timer (emit e m) = recorded_timer m"
  by (simp add: recorded_timer_def fun_eq_iff)

lemma recorded_timer_updateStatus [simp]:
  "recorded_timer (updateStatus c st msg m) = recorded_timer m"
  by (simp add: recorded_timer_def fun_eq_iff)

lemma recorded_timer_ensure [simp]:
  "recorded_timer (ensureHlsDirectory c m) = recorded_timer m"
  by (simp add: recorded_timer_def fun_eq_iff)

lemma recorded_timer_modify:
  "recorded_timer (modify_stream c f m) c' =
     (if c' = c then (case map_of (streams m) c of None \<Rightarrow> None
                      | Some s \<Rightarrow> reconnectTimer (f s))
      else recorded_timer m c')"
  by (simp add: recorded_timer_def al_simps split: option.splits)

lemma recorded_timer_modify_same:
  "(\<And>s. reconnectTimer (f s) = reconnectTimer s) \<Longrightarrow>
   recorded_timer (modify_stream c f m) = recorded_timer m"
  by (auto simp: recorded_timer_def al_simps fun_eq_iff split: option.splits)

lemma recorded_timer_timers_upd [simp]:
  "recorded_timer (m\<lparr>timers := ts\<rparr>) = recorded_timer m"
  by (simp add: recorded_timer_def fun_eq_iff)

lemma recorded_timer_startFFmpeg [simp]:
  "recorded_timer (startFFmpeg c m) = recorded_timer m"
  by (auto simp: recorded_timer_def startFFmpeg_streams al_simps fun_eq_iff split: option.splits)

lemma recorded_timer_startStream [simp]:
  "recorded_timer (startStream c m) = recorded_timer m"
  by (simp add: startStream_def split: option.splits)

lemma recorded_timer_onStart [simp]:
  "recorded_timer (onStart c now m) = recorded_timer m"
  by (simp add: onStart_def recorded_timer_modify_same)

lemma recorded_timer_scheduleReconnect:
  "recorded_timer (scheduleReconnect c m) c' =
     (if c' = c \<and> map_of (streams m) c \<noteq> None \<and> recorded_timer m c = None
      then Some (next_timer m) else recorded_timer m c')"
  by (auto simp: scheduleReconnect_def Let_def recorded_timer_modify split: option.splits)
     (auto simp: recorded_timer_def)

lemma recorded_timer_stopStream:
  "recorded_timer (stopStream c m) c' =
     (if targetCameraId m c = Some c' then None else recorded_timer m c')"
  by (auto simp: stopStream_def Let_def recorded_timer_def al_simps split: option.splits)

lemma recorded_timer_reconnectCallback:
  "recorded_timer (reconnectCallback c m) c' = (if c' = c then None else recorded_timer m c')"
  by (auto simp: reconnectCallback_def Let_def recorded_timer_modify split: option.splits)
     (auto simp: recorded_timer_def)

section \<open>The timer invariant\<close>

lemma timer_invI:
  "(\<And>h c d. map_of (timers m) h = Some (c, d) \<Longrightarrow> recorded_timer m c = Some h) \<Longrightarrow> timer_inv m"
  by (simp add: timer_inv_def)

lemma timer_invD:
  "timer_inv m \<Longrightarrow> map_of (timers m) h = Some (c, d) \<Longrightarrow> recorded_timer m c = Some h"
  by (simp add: timer_inv_def)

lemma inv_same:
  "timer_inv m \<Longrightarrow> timers m' = timers m \<Longrightarrow> recorded_timer m' = recorded_timer m \<Longrightarrow> timer_inv m'"
  by (simp add: timer_inv_def)

lemma inv_startStream: "timer_inv m \<Longrightarrow> timer_inv (startStream c m)"
  by (erule inv_same) simp_all

lemma inv_onStart: "timer_inv m \<Longrightarrow> timer_inv (onStart c now m)"
  by (erule inv_same) simp_all

lemma inv_setStatusCallback: "timer_inv m \<Longrightarrow> timer_inv (setStatusCallback b m)"
  by (erule inv_same) (simp_all add: setStatusCallback_def recorded_timer_def fun_eq_iff)

lemma inv_scheduleReconnect:
  assumes "timer_inv m" shows "timer_inv (scheduleReconnect c m)"
proof (rule timer_invI)
  fix h c' d assume "map_of (timers (scheduleReconnect c m)) h = Some (c', d)"
  then show "recorded_timer (scheduleReconnect c m) c' = Some h"
    using timer_invD [OF assms(1), of h c' d]
    by (auto simp: timers_scheduleReconnect recorded_timer_scheduleReconnect al_simps
             split: option.splits if_splits)
       (auto simp: recorded_timer_def)
qed

lemma inv_teardown:
  assumes "timer_inv m"
  shows "timer_inv (updateStatus c st msg
           (modify_stream c (\<lambda>s. s\<lparr>isStreaming := False, ffmpegProcess := None\<rparr>) m))"
  using assms by (rule inv_same) (simp_all add: recorded_timer_modify_same)

lemma inv_onError: "timer_inv m \<Longrightarrow> timer_inv (onError c msg m)"
  by (simp add: onError_def inv_scheduleReconnect inv_teardown split: option.splits)

lemma inv_onEnd: "timer_inv m \<Longrightarrow> timer_inv (onEnd c m)"
  by (simp add: onEnd_def inv_scheduleReconnect inv_teardown)

lemma inv_stopStream:
  assumes "timer_inv m" shows "timer_inv (stopStream c m)"
proof (rule timer_invI)
  fix h c' d assume "map_of (timers (stopStream c m)) h = Some (c', d)"
  then show "recorded_timer (stopStream c m) c' = Some h"
    using timer_invD [OF assms(1), of h c' d]
    by (auto simp: timers_stopStream recorded_timer_stopStream al_simps
             split: option.splits if_splits)
qed

lemma inv_timerFired:
  assumes "timer_inv m" shows "timer_inv (timerFired x m)"
proof (rule timer_invI)
  fix h c' d assume "map_of (timers (timerFired x m)) h = Some (c', d)"
  then show "recorded_timer (timerFired x m) c' = Some h"
    using timer_invD [OF assms(1), of h c' d] timer_invD [OF assms(1), of x]
    by (auto simp: timerFired_def recorded_timer_reconnectCallback al_simps
             split: option.splits if_splits)
qed

lemma fold_inv:
  assumes "\<And>x m. P m \<Longrightarrow> P (f x m)" "P m"
  shows "P (fold f xs m)"
  using assms(2) by (induction xs arbitrary: m) (simp_all add: assms(1))

lemma inv_step:
  assumes "timer_inv m"
  shows "timer_inv (step e m)"
proof (cases e)
  case StartAll
  then show ?thesis
    using assms by (simp add: fold_inv [where P = timer_inv] inv_startStream)
next
  case StopAll
  then show ?thesis
    using assms by (simp add: fold_inv [where P = timer_inv] inv_stopStream)
qed (use assms in \<open>auto simp: inv_startStream inv_stopStream inv_setStatusCallback inv_onStart
       inv_onError inv_onEnd inv_timerFired split: option.splits\<close>)

lemma distinct_startStream: "distinct_timers m \<Longrightarrow> distinct_timers (startStream c m)"
  by (simp add: distinct_timers_def)

lemma distinct_stopStream: "distinct_timers m \<Longrightarrow> distinct_timers (stopStream c m)"
  by (simp add: distinct_timers_def timers_stopStream distinct_delete split: option.splits)

lemma distinct_onError: "distinct_timers m \<Longrightarrow> distinct_timers (onError c msg m)"
  using timers_onError [of c msg m] by (auto simp: distinct_timers_def distinct_update)

lemma distinct_onEnd: "distinct_timers m \<Longrightarrow> distinct_timers (onEnd c m)"
  using timers_onEnd [of c m] by (auto simp: distinct_timers_def distinct_update)

lemma distinct_timerFired: "distinct_timers m \<Longrightarrow> distinct_timers (timerFired h m)"
  by (simp add: distinct_timers_def timers_timerFired distinct_delete split: option.splits)

lemma distinct_timers_step:
  assumes "distinct_timers m"
  shows "distinct_timers (step e m)"
proof (cases e)
  case StartAll
  then show ?thesis
    using assms by (simp add: fold_inv [where P = distinct_timers] distinct_startStream)
next
  case StopAll
  then show ?thesis
    using assms by (simp add: fold_inv [where P = distinct_timers] distinct_stopStream)
next
  case (SetStatusCallback b)
  then show ?thesis
    using assms by (simp add: distinct_timers_def setStatusCallback_def)
next
  case (ProcessStart p now)
  then show ?thesis
    using assms by (simp add: distinct_timers_def split: option.splits)
qed (use assms in \<open>auto simp: distinct_startStream distinct_stopStream distinct_onError
       distinct_onEnd distinct_timerFired split: option.splits\<close>)

lemma run_snoc: "run (evs @ [e]) m = step e (run evs m)"
  by (simp add: run_def)

lemma inv_init: "timer_inv (StreamManager c) \<and> distinct_timers (StreamManager c)"
  by (simp add: timer_inv_def distinct_timers_def StreamManager_def)

lemma inv_run: "timer_inv (run evs (StreamManager c)) \<and> distinct_timers (run evs (StreamManager c))"
proof (induction evs rule: rev_induct)
  case Nil
  then show ?case using inv_init by (simp add: run_def)
next
  case (snoc e evs)
  then show ?case by (simp add: run_snoc inv_step distinct_timers_step)
qed


lemma pending_recorded:
  assumes "timer_inv m" "distinct_timers m" "h \<in> set (pending_timers c m)"
  shows "recorded_timer m c = Some h"
proof -
  from assms(3) obtain d where "(h, c, d) \<in> set (timers m)"
    by (auto simp: pending_timers_def)
  with assms(2) have "map_of (timers m) h = Some (c, d)"
    by (simp add: distinct_timers_def)
  with assms(1) show ?thesis by (rule timer_invD)
qed

lemma pending_le_1:
  assumes "timer_inv m" "distinct_timers m"
  shows "length (pending_timers c m) \<le> 1"
proof -
  have d: "distinct (pending_timers c m)"
    using assms(2) by (simp add: pending_timers_def distinct_timers_def distinct_map_filter)
  have "set (pending_timers c m) \<subseteq> set_option (recorded_timer m c)"
    using pending_recorded [OF assms] by auto
  then have "card (set (pending_timers c m)) \<le> card (set_option (recorded_timer m c))"
    by (intro card_mono) simp_all
  also have "\<dots> \<le> 1"
    by (cases "recorded_timer m c") simp_all
  finally show ?thesis
    using d by (simp add: distinct_card)
qed

lemma scheduleReconnect_ignored:
  assumes "recorded_timer m c \<noteq> None"
  shows "scheduleReconnect c m = m"
  using assms by (auto simp: scheduleReconnect_def recorded_timer_def split: option.splits)

text \<open>
  C3. In every state the manager can reach, at most one reconnect timer is armed for a
  camera; this stays so after any further event (start, stop, process events, a timer
  firing) and after a schedule request; and a schedule request made while a timer is
  armed for the camera changes nothing.
\<close>

theorem C3_single_pending_timer:
  "length (pending_timers c (run evs (StreamManager cf))) \<le> 1
   \<and> length (pending_timers c (step e (run evs (StreamManager cf)))) \<le> 1
   \<and> length (pending_timers c (scheduleReconnect c' (run evs (StreamManager cf)))) \<le> 1
   \<and> (pending_timers c (run evs (StreamManager cf)) \<noteq> []
        \<longrightarrow> scheduleReconnect c (run evs (StreamManager cf)) = run evs (StreamManager cf))"
proof -
  define m where "m = run evs (StreamManager cf)"
  have inv: "timer_inv m" "distinct_timers m"
    using inv_run [of evs cf] by (simp_all add: m_def)
  have "scheduleReconnect c m = m" if "pending_timers c m \<noteq> []"
  proof -
    from that obtain h where "h \<in> set (pending_timers c m)"
      by (cases "pending_timers c m") auto
    then have "recorded_timer m c = Some h"
      using inv by (intro pending_recorded)
    then show ?thesis by (simp add: scheduleReconnect_ignored)
  qed
  moreover have "length (pending_timers c m) \<le> 1"
    using inv by (rule pending_le_1)
  moreover have "length (pending_timers c (step e m)) \<le> 1"
    using inv by (intro pending_le_1 inv_step distinct_timers_step)
  moreover have "distinct_timers (scheduleReconnect c' m)"
    using inv(2) by (simp add: distinct_timers_def timers_scheduleReconnect distinct_update
        split: option.splits)
  then have "length (pending_timers c (scheduleReconnect c' m)) \<le> 1"
    using inv(1) by (intro pending_le_1 inv_scheduleReconnect)
  ultimately show ?thesis
    unfolding m_def by blast
qed

theorem C3_single_pending_timer_witness:
  "pending_timers ''cam1'' armed_run = [0]
   \<and> scheduleReconnect ''cam1'' armed_run = armed_run
   \<and> pending_timers ''cam1'' (step (ProcessError 0 ''gone'') armed_run) = [0]
   \<and> pending_timers ''cam1'' (step (TimerFired 0) armed_run) = []"
  using C3_single_pending_timer
          [of "''cam1''" "[StartStream None, ProcessStart 0 5, ProcessEnd 0]" cfg1
              "ProcessError 0 ''gone''" "''cam1''"]
  by (simp add: eval_defs)

section \<open>The start event\<close>

text \<open>
  C1. When the start event of a launched process arrives, the stream entry of the
  process's camera becomes streaming and its reconnect-attempt counter becomes 0,
  whatever its value was; the status ``streaming'' is handed to a registered callback.
\<close>

theorem C1_start_resets_attempts:
  assumes "map_of (processes m) p = Some c" and "map_of (streams m) c = Some s"
  shows "map_of (streams (step (ProcessStart p now) m)) c
           = Some (s\<lparr>isStreaming := True, reconnectAttempts := 0,
                      streamStartTime := Some now, h264ErrorLogged := Some False\<rparr>)
       \<and> map_option isStreaming (map_of (streams (step (ProcessStart p now) m)) c) = Some True
       \<and> map_option reconnectAttempts (map_of (streams (step (ProcessStart p now) m)) c) = Some 0
       \<and> effects (step (ProcessStart p now) m)
           = (if onStatusChange m
              then [StatusChange c (cam_name (camera s)) ''streaming'' [] True 0] else [])
             @ effects m"
  using assms by (simp add: onStart_def updateStatus_def al_simps)

theorem C1_start_resets_attempts_witness:
  "map_of (processes retrying_run) 2 = Some ''cam1''
   \<and> map_option reconnectAttempts (map_of (streams retrying_run) ''cam1'') = Some 2
   \<and> map_option isStreaming (map_of (streams retrying_run) ''cam1'') = Some False
   \<and> map_option reconnectAttempts
        (map_of (streams (step (ProcessStart 2 77) retrying_run)) ''cam1'') = Some 0
   \<and> map_option isStreaming
        (map_of (streams (step (ProcessStart 2 77) retrying_run)) ''cam1'') = Some True"
  using C1_start_resets_attempts [of retrying_run 2 "''cam1''" _ 77]
  by (simp add: eval_defs)

section \<open>Stopping\<close>

lemma targetCameraId_stopStream [simp]:
  "targetCameraId (stopStream c m) c' = targetCameraId m c'"
  by (simp add: targetCameraId_def)

lemma stopStream_stream:
  assumes "targetCameraId m c = Some t" "map_of (streams m) t = Some s"
  shows "map_of (streams (stopStream c m)) t
           = Some (s\<lparr>reconnectTimer := None, ffmpegProcess := None, isStreaming := False,
                      reconnectAttempts := 0\<rparr>)"
  using assms by (auto simp: stopStream_def Let_def al_simps split: option.splits)

lemma stopStream_stopped:
  assumes "targetCameraId m c = Some t" "map_of (streams m) t = Some s"
    "reconnectTimer s = None" "ffmpegProcess s = None" "\<not> isStreaming s" "reconnectAttempts s = 0"
  shows "stopStream c m = updateStatus t ''stopped'' [] m"
proof -
  have "modify_stream t (\<lambda>s. s\<lparr>isStreaming := False, reconnectAttempts := 0\<rparr>) m = m"
    using assms by (simp add: modify_stream_def map_entry_same)
  then show ?thesis
    using assms by (simp add: stopStream_def Let_def)
qed

lemma stopStream_no_target: "targetCameraId m c = None \<Longrightarrow> stopStream c m = m"
  by (simp add: stopStream_def)

lemma stopStream_no_stream:
  "targetCameraId m c = Some t \<Longrightarrow> map_of (streams m) t = None \<Longrightarrow> stopStream c m = m"
  by (simp add: stopStream_def)

lemma updateStatus_no_stream: "map_of (streams m) t = None \<Longrightarrow> updateStatus t st msg m = m"
  by (simp add: updateStatus_def)

lemma stopStream_effects:
  assumes "targetCameraId m c = Some t" "map_of (streams m) t = Some s"
  shows "effects (stopStream c m)
           = (if onStatusChange m
              then [StatusChange t (cam_name (camera s)) ''stopped'' [] False 0] else [])
             @ (case ffmpegProcess s of None \<Rightarrow> [] | Some p \<Rightarrow> [Kill p])
             @ (case reconnectTimer s of None \<Rightarrow> [] | Some h \<Rightarrow> [ClearTimeout h])
             @ effects m"
  using assms
  by (auto simp: stopStream_def updateStatus_def Let_def al_simps split: option.splits)

lemma stop_clears_pending:
  assumes "timer_inv m" "distinct_timers m" "targetCameraId m c = Some t"
  shows "pending_timers t (stopStream c m) = []"
proof (rule ccontr)
  assume "pending_timers t (stopStream c m) \<noteq> []"
  then obtain h where "h \<in> set (pending_timers t (stopStream c m))"
    by (cases "pending_timers t (stopStream c m)") auto
  then have "recorded_timer (stopStream c m) t = Some h"
    using assms by (intro pending_recorded inv_stopStream distinct_stopStream)
  then show False
    using assms(3) by (simp add: recorded_timer_stopStream)
qed

lemma stop_twice:
  "stopStream c (stopStream c m)
     = (case targetCameraId m c of
          None \<Rightarrow> stopStream c m
        | Some t \<Rightarrow> updateStatus t ''stopped'' [] (stopStream c m))"
proof (cases "targetCameraId m c")
  case None
  then show ?thesis by (simp add: stopStream_no_target)
next
  case (Some t)
  note target = this
  show ?thesis
  proof (cases "map_of (streams m) t")
    case None
    with target have "stopStream c m = m"
      by (rule stopStream_no_stream)
    with target None show ?thesis
      by (simp add: updateStatus_no_stream)
  next
    case (Some s)
    have t: "targetCameraId (stopStream c m) c = Some t"
      using target by simp
    have "stopStream c (stopStream c m) = updateStatus t ''stopped'' [] (stopStream c m)"
      by (rule stopStream_stopped [OF t stopStream_stream [OF target Some]]) simp_all
    with target show ?thesis by simp
  qed
qed

text \<open>
  C5, amended. In every reachable state, a stop of a configured camera leaves its
  entry not streaming, without process handle, without timer handle and with attempt
  counter 0, and leaves no timer armed for it in the runtime; it kills the recorded
  process, clears the recorded timer and hands ``stopped'' to the callback. A second
  stop changes neither stream entries nor timers nor processes, kills and clears
  nothing, and still leaves no timer armed; it is not a no-op, because it hands
  ``stopped'' to the callback once more. A stop on an entry that is already in the
  stopped state likewise only notifies the callback.
\<close>

theorem C5_stop_idempotent:
  assumes "m = run evs (StreamManager cf)"
  shows "stopStream c (stopStream c m)
           = (case targetCameraId m c of
                None \<Rightarrow> stopStream c m
              | Some t \<Rightarrow> updateStatus t ''stopped'' [] (stopStream c m))
       \<and> streams (stopStream c (stopStream c m)) = streams (stopStream c m)
       \<and> timers (stopStream c (stopStream c m)) = timers (stopStream c m)
       \<and> processes (stopStream c (stopStream c m)) = processes (stopStream c m)
       \<and> (\<forall>t s. targetCameraId m c = Some t \<and> map_of (streams m) t = Some s \<longrightarrow>
             map_of (streams (stopStream c m)) t
               = Some (s\<lparr>reconnectTimer := None, ffmpegProcess := None, isStreaming := False,
                          reconnectAttempts := 0\<rparr>)
           \<and> map_of (streams (stopStream c (stopStream c m))) t
               = Some (s\<lparr>reconnectTimer := None, ffmpegProcess := None, isStreaming := False,
                          reconnectAttempts := 0\<rparr>)
           \<and> pending_timers t (stopStream c m) = []
           \<and> pending_timers t (stopStream c (stopStream c m)) = []
           \<and> effects (stopStream c m)
               = (if onStatusChange m
                  then [StatusChange t (cam_name (camera s)) ''stopped'' [] False 0] else [])
                 @ (case ffmpegProcess s of None \<Rightarrow> [] | Some p \<Rightarrow> [Kill p])
                 @ (case reconnectTimer s of None \<Rightarrow> [] | Some h \<Rightarrow> [ClearTimeout h])
                 @ effects m
           \<and> effects (stopStream c (stopStream c m))
               = (if onStatusChange m
                  then [StatusChange t (cam_name (camera s)) ''stopped'' [] False 0] else [])
                 @ effects (stopStream c m)
           \<and> (reconnectTimer s = None \<and> ffmpegProcess s = None \<and> \<not> isStreaming s
                \<and> reconnectAttempts s = 0 \<longrightarrow>
               stopStream c m = updateStatus t ''stopped'' [] m))"
proof -
  have inv: "timer_inv m" "distinct_timers m"
    using inv_run [of evs cf] by (simp_all add: assms)
  note eq = stop_twice [of c m]
  have same: "streams (stopStream c (stopStream c m)) = streams (stopStream c m)"
    "timers (stopStream c (stopStream c m)) = timers (stopStream c m)"
    "processes (stopStream c (stopStream c m)) = processes (stopStream c m)"
    unfolding eq by (simp_all split: option.splits)
  have "map_of (streams (stopStream c m)) t
               = Some (s\<lparr>reconnectTimer := None, ffmpegProcess := None, isStreaming := False,
                          reconnectAttempts := 0\<rparr>)
           \<and> map_of (streams (stopStream c (stopStream c m))) t
               = Some (s\<lparr>reconnectTimer := None, ffmpegProcess := None, isStreaming := False,
                          reconnectAttempts := 0\<rparr>)
           \<and> pending_timers t (stopStream c m) = []
           \<and> pending_timers t (stopStream c (stopStream c m)) = []
           \<and> effects (stopStream c m)
               = (if onStatusChange m
                  then [StatusChange t (cam_name (camera s)) ''stopped'' [] False 0] else [])
                 @ (case ffmpegProcess s of None \<Rightarrow> [] | Some p \<Rightarrow> [Kill p])
                 @ (case reconnectTimer s of None \<Rightarrow> [] | Some h \<Rightarrow> [ClearTimeout h])
                 @ effects m
           \<and> effects (stopStream c (stopStream c m))
               = (if onStatusChange m
                  then [StatusChange t (cam_name (camera s)) ''stopped'' [] False 0] else [])
                 @ effects (stopStream c m)
           \<and> (reconnectTimer s = None \<and> ffmpegProcess s = None \<and> \<not> isStreaming s
                \<and> reconnectAttempts s = 0 \<longrightarrow>
               stopStream c m = updateStatus t ''stopped'' [] m)"
    if target: "targetCameraId m c = Some t" and stream: "map_of (streams m) t = Some s" for t s
  proof -
    note after = stopStream_stream [OF target stream]
    have pending: "pending_timers t (stopStream c m) = []"
      using inv target by (rule stop_clears_pending)
    have "pending_timers t (stopStream c (stopStream c m)) = pending_timers t (stopStream c m)"
      by (simp add: pending_timers_def same)
    moreover have "effects (stopStream c (stopStream c m))
               = (if onStatusChange m
                  then [StatusChange t (cam_name (camera s)) ''stopped'' [] False 0] else [])
                 @ effects (stopStream c m)"
      unfolding eq using target after by (simp add: updateStatus_def)
    moreover note after pending stopStream_effects [OF target stream]
      stopStream_stopped [OF target stream]
    ultimately show ?thesis
      by (simp add: same)
  qed
  with eq same show ?thesis by blast
qed

theorem C5_stop_idempotent_witness:
  "armed_observed_run
     = run [SetStatusCallback True, StartStream None, ProcessStart 0 5, ProcessEnd 0]
         (StreamManager cfg1)
   \<and> targetCameraId armed_observed_run (Some ''cam1'') = Some ''cam1''
   \<and> pending_timers ''cam1'' armed_observed_run = [0]
   \<and> pending_timers ''cam1'' (stopStream (Some ''cam1'') armed_observed_run) = []
   \<and> map_of (streams (stopStream (Some ''cam1'') (stopStream (Some ''cam1'') armed_observed_run)))
        ''cam1''
       = Some \<lparr>camera = cam1, ffmpegProcess = None, isStreaming = False,
                reconnectAttempts = 0, reconnectTimer = None,
                streamStartTime = Some 5, h264ErrorLogged = Some False\<rparr>
   \<and> effects (stopStream (Some ''cam1'') armed_observed_run)
       = StatusChange ''cam1'' ''Front door'' ''stopped'' [] False 0 # ClearTimeout 0
           # effects armed_observed_run
   \<and> effects (stopStream (Some ''cam1'') (stopStream (Some ''cam1'') armed_observed_run))
       = StatusChange ''cam1'' ''Front door'' ''stopped'' [] False 0
           # effects (stopStream (Some ''cam1'') armed_observed_run)
   \<and> stopStream (Some ''cam1'') (StreamManager cfg1)
       = updateStatus ''cam1'' ''stopped'' [] (StreamManager cfg1)"
  using C5_stop_idempotent
          [of armed_observed_run
              "[SetStatusCallback True, StartStream None, ProcessStart 0 5, ProcessEnd 0]"
              cfg1 "Some ''cam1''"]
        C5_stop_idempotent [of "StreamManager cfg1" "[]" cfg1 "Some ''cam1''"]
  by (simp add: eval_defs)

text \<open>
  With a callback registered, the second stop is not a no-op: the callback receives
  ``stopped'' a second time.
\<close>

theorem C5_second_stop_counterexample:
  "effects (stopStream (Some ''cam1'') (stopStream (Some ''cam1'') streaming_run))
     = StatusChange ''cam1'' ''Front door'' ''stopped'' [] False 0
         # effects (stopStream (Some ''cam1'') streaming_run)
   \<and> stopStream (Some ''cam1'') (stopStream (Some ''cam1'') streaming_run)
       \<noteq> stopStream (Some ''cam1'') streaming_run"
proof -
  have "effects (stopStream (Some ''cam1'') (stopStream (Some ''cam1'') streaming_run))
     = StatusChange ''cam1'' ''Front door'' ''stopped'' [] False 0
         # effects (stopStream (Some ''cam1'') streaming_run)"
    by (simp add: eval_defs)
  moreover from this
  have "stopStream (Some ''cam1'') (stopStream (Some ''cam1'') streaming_run)
          \<noteq> stopStream (Some ''cam1'') streaming_run"
    by (metis not_Cons_self2)
  ultimately show ?thesis by blast
qed

section \<open>A stopped camera is started again\<close>

text \<open>
  C4 does not hold. The reconnect timer that fired before the stop has launched
  process 1; the stop kills it and leaves the camera stopped with no timer armed. The
  error event of the killed process then reaches the error handler, which arms timer 1,
  and the callback of timer 1 launches process 2 without looking at the state: the
  stopped camera is streaming again.
\<close>

theorem C4_restart_after_stop:
  "map_of (streams stopped_run) ''cam1''
     = Some \<lparr>camera = cam1, ffmpegProcess = None, isStreaming = False,
              reconnectAttempts = 0, reconnectTimer = None,
              streamStartTime = Some 9, h264ErrorLogged = Some False\<rparr>
   \<and> pending_timers ''cam1'' stopped_run = []
   \<and> effects stopped_run
       = [Kill 1, Run 1 ''cam1'', EnsureHlsDirectory ''cam1'', SetTimeout 0 ''cam1'' 1000,
          Run 0 ''cam1'', EnsureHlsDirectory ''cam1'', EnsureHlsDirectory ''cam1'']
   \<and> \<not> isDecodingError ''ffmpeg was killed with signal SIGTERM''
   \<and> pending_timers ''cam1''
        (step (ProcessError 1 ''ffmpeg was killed with signal SIGTERM'') stopped_run) = [1]
   \<and> effects (run [ProcessError 1 ''ffmpeg was killed with signal SIGTERM'', TimerFired 1]
                 stopped_run)
       = Run 2 ''cam1'' # EnsureHlsDirectory ''cam1'' # SetTimeout 1 ''cam1'' 1000
           # effects stopped_run
   \<and> map_option ffmpegProcess
        (map_of (streams (run [ProcessError 1 ''ffmpeg was killed with signal SIGTERM'',
                               TimerFired 1] stopped_run)) ''cam1'')
       = Some (Some 2)"
  by (simp add: eval_defs)

section \<open>Starting a stream\<close>

text \<open>
  The guard of \<open>startStream\<close> is the streaming flag: for a configured camera whose entry
  is marked streaming the call changes nothing, and otherwise it prepares the output
  directory and launches a process.
\<close>

lemma startStream_guard:
  assumes "targetCameraId m c = Some t" and "map_of (streams m) t = Some s"
  shows "(isStreaming s \<longrightarrow> startStream c m = m)
       \<and> (\<not> isStreaming s \<longrightarrow>
            effects (startStream c m)
              = Run (next_process m) t # EnsureHlsDirectory t # EnsureHlsDirectory t # effects m
          \<and> map_of (streams (startStream c m)) t
              = Some (s\<lparr>ffmpegProcess := Some (next_process m)\<rparr>)
          \<and> map_of (processes (startStream c m)) (next_process m) = Some t
          \<and> timers (startStream c m) = timers m)"
  using assms
  by (simp add: startStream_def startFFmpeg_def Let_def al_simps)

text \<open>
  C6 does not hold for a session that is starting. After a first start the entry
  records process 0 and is not yet marked streaming; a second start is then no no-op:
  it prepares the directory again and launches process 1, whose handle overwrites that
  of process 0, which is not killed. A later stop kills process 1 only.
\<close>

theorem C6_second_start_while_starting:
  "map_option ffmpegProcess (map_of (streams starting_run) ''cam1'') = Some (Some 0)
   \<and> map_option isStreaming (map_of (streams starting_run) ''cam1'') = Some False
   \<and> effects (startStream (Some ''cam1'') starting_run)
       = [Run 1 ''cam1'', EnsureHlsDirectory ''cam1'', EnsureHlsDirectory ''cam1'',
          Run 0 ''cam1'', EnsureHlsDirectory ''cam1'', EnsureHlsDirectory ''cam1'']
   \<and> map_option ffmpegProcess
        (map_of (streams (startStream (Some ''cam1'') starting_run)) ''cam1'') = Some (Some 1)
   \<and> effects (stopStream (Some ''cam1'') (startStream (Some ''cam1'') starting_run))
       = Kill 1 # effects (startStream (Some ''cam1'') starting_run)"
  by (simp add: eval_defs)

section \<open>Process failure and exit\<close>

lemma teardown_error:
  assumes "map_of (streams m) c = Some s" and "\<not> (isDecodingError msg \<and> isStreaming s)"
  shows "map_of (streams (onError c msg m)) c
           = Some (s\<lparr>isStreaming := False, ffmpegProcess := None,
                      reconnectTimer := Some (case reconnectTimer s of None \<Rightarrow> next_timer m | Some h \<Rightarrow> h)\<rparr>)"
    and "effects (onError c msg m)
           = (if reconnectTimer s = None
              then [SetTimeout (next_timer m) c
                      (calculateReconnectDelay (reconnection (cfg m)) (reconnectAttempts s))]
              else [])
             @ (if onStatusChange m
                then [StatusChange c (cam_name (camera s)) ''error'' msg False (reconnectAttempts s)]
                else [])
             @ effects m"
    and "timers (onError c msg m)
           = (if reconnectTimer s = None
              then AList.update (next_timer m)
                     (c, calculateReconnectDelay (reconnection (cfg m)) (reconnectAttempts s))
                     (timers m)
              else timers m)"
  using assms
  by (auto simp: onError_def scheduleReconnect_def updateStatus_def Let_def al_simps)

lemma teardown_end:
  assumes "map_of (streams m) c = Some s"
  shows "map_of (streams (onEnd c m)) c
           = Some (s\<lparr>isStreaming := False, ffmpegProcess := None,
                      reconnectTimer := Some (case reconnectTimer s of None \<Rightarrow> next_timer m | Some h \<Rightarrow> h)\<rparr>)"
    and "effects (onEnd c m)
           = (if reconnectTimer s = None
              then [SetTimeout (next_timer m) c
                      (calculateReconnectDelay (reconnection (cfg m)) (reconnectAttempts s))]
              else [])
             @ (if onStatusChange m
                then [StatusChange c (cam_name (camera s)) ''ended'' [] False (reconnectAttempts s)]
                else [])
             @ effects m"
    and "timers (onEnd c m)
           = (if reconnectTimer s = None
              then AList.update (next_timer m)
                     (c, calculateReconnectDelay (reconnection (cfg m)) (reconnectAttempts s))
                     (timers m)
              else timers m)"
  using assms
  by (auto simp: onEnd_def scheduleReconnect_def updateStatus_def Let_def al_simps)

lemma end_like_error:
  assumes "map_of (streams m) c = Some s" and "\<not> (isDecodingError msg \<and> isStreaming s)"
  shows "streams (onEnd c m) = streams (onError c msg m)"
    and "timers (onEnd c m) = timers (onError c msg m)"
    and "next_timer (onEnd c m) = next_timer (onError c msg m)"
    and "map without_status_tag (effects (onEnd c m))
           = map without_status_tag (effects (onError c msg m))"
  using assms
  by (auto simp: onEnd_def onError_def scheduleReconnect_def updateStatus_def Let_def al_simps)


text \<open>
  C7. For a process of a camera whose entry is streaming: an error event whose message
  is classified as a decoding error changes nothing; any other error event clears the
  streaming flag and the process handle, hands the status ``error'' with the message
  to the callback and asks for a reconnect (a timer is armed with the backoff delay
  unless one is armed already); the end event does the same with the status ``ended''
  and an empty message, and the resulting states differ in that status record only.
\<close>

theorem C7_failure_and_exit:
  assumes "map_of (processes m) p = Some c" and "map_of (streams m) c = Some s"
    and "isStreaming s"
  shows "(isDecodingError msg \<longrightarrow> step (ProcessError p msg) m = m)
       \<and> (\<not> isDecodingError msg \<longrightarrow>
            map_of (streams (step (ProcessError p msg) m)) c
              = Some (s\<lparr>isStreaming := False, ffmpegProcess := None,
                         reconnectTimer :=
                           Some (case reconnectTimer s of None \<Rightarrow> next_timer m | Some h \<Rightarrow> h)\<rparr>)
          \<and> effects (step (ProcessError p msg) m)
              = (if reconnectTimer s = None
                 then [SetTimeout (next_timer m) c
                         (calculateReconnectDelay (reconnection (cfg m)) (reconnectAttempts s))]
                 else [])
                @ (if onStatusChange m
                   then [StatusChange c (cam_name (camera s)) ''error'' msg False
                           (reconnectAttempts s)]
                   else [])
                @ effects m
          \<and> streams (step (ProcessEnd p) m) = streams (step (ProcessError p msg) m)
          \<and> timers (step (ProcessEnd p) m) = timers (step (ProcessError p msg) m)
          \<and> next_timer (step (ProcessEnd p) m) = next_timer (step (ProcessError p msg) m)
          \<and> map without_status_tag (effects (step (ProcessEnd p) m))
              = map without_status_tag (effects (step (ProcessError p msg) m)))
       \<and> map_of (streams (step (ProcessEnd p) m)) c
            = Some (s\<lparr>isStreaming := False, ffmpegProcess := None,
                       reconnectTimer :=
                         Some (case reconnectTimer s of None \<Rightarrow> next_timer m | Some h \<Rightarrow> h)\<rparr>)
       \<and> effects (step (ProcessEnd p) m)
            = (if reconnectTimer s = None
               then [SetTimeout (next_timer m) c
                       (calculateReconnectDelay (reconnection (cfg m)) (reconnectAttempts s))]
               else [])
              @ (if onStatusChange m
                 then [StatusChange c (cam_name (camera s)) ''ended'' [] False
                         (reconnectAttempts s)]
                 else [])
              @ effects m
       \<and> timers (step (ProcessEnd p) m)
            = (if reconnectTimer s = None
               then AList.update (next_timer m)
                      (c, calculateReconnectDelay (reconnection (cfg m)) (reconnectAttempts s))
                      (timers m)
               else timers m)"
proof -
  have "onError c msg m = m" if "isDecodingError msg"
    using that assms by (simp add: onError_def)
  moreover note teardown_end [OF assms(2)]
  moreover have "\<not> (isDecodingError msg \<and> isStreaming s)" if "\<not> isDecodingError msg"
    using that by simp
  note teardown_error [OF assms(2) this] end_like_error [OF assms(2) this]
  ultimately show ?thesis
    using assms(1) by simp
qed

theorem C7_failure_and_exit_witness:
  "map_of (processes streaming_run) 0 = Some ''cam1''
   \<and> map_option isStreaming (map_of (streams streaming_run) ''cam1'') = Some True
   \<and> isDecodingError ''error while decoding MB 12 3''
   \<and> step (ProcessError 0 ''error while decoding MB 12 3'') streaming_run = streaming_run
   \<and> \<not> isDecodingError ''Connection refused''
   \<and> effects (step (ProcessError 0 ''Connection refused'') streaming_run)
       = [SetTimeout 0 ''cam1'' 1000,
          StatusChange ''cam1'' ''Front door'' ''error'' ''Connection refused'' False 0,
          StatusChange ''cam1'' ''Front door'' ''streaming'' [] True 0,
          Run 0 ''cam1'', EnsureHlsDirectory ''cam1'', EnsureHlsDirectory ''cam1'']
   \<and> effects (step (ProcessEnd 0) streaming_run)
       = [SetTimeout 0 ''cam1'' 1000,
          StatusChange ''cam1'' ''Front door'' ''ended'' [] False 0,
          StatusChange ''cam1'' ''Front door'' ''streaming'' [] True 0,
          Run 0 ''cam1'', EnsureHlsDirectory ''cam1'', EnsureHlsDirectory ''cam1'']"
  using C7_failure_and_exit [of streaming_run 0 "''cam1''" _ "''error while decoding MB 12 3''"]
        C7_failure_and_exit [of streaming_run 0 "''cam1''" _ "''Connection refused''"]
  by (simp add: eval_defs)

section \<open>Cameras that are not configured\<close>

lemma absent_map_entry [simp]:
  "map_of (AList.map_entry k f xs) k' = None \<longleftrightarrow> map_of xs k' = None"
  by (simp add: al_simps split: option.splits)

lemma absent_startFFmpeg [simp]:
  "map_of (streams (startFFmpeg c m)) c' = None \<longleftrightarrow> map_of (streams m) c' = None"
  by (simp add: startFFmpeg_streams al_simps split: option.splits)

lemma absent_startStream [simp]:
  "map_of (streams (startStream c m)) c' = None \<longleftrightarrow> map_of (streams m) c' = None"
  by (simp add: startStream_def split: option.splits)

lemma absent_scheduleReconnect [simp]:
  "map_of (streams (scheduleReconnect c m)) c' = None \<longleftrightarrow> map_of (streams m) c' = None"
  by (simp add: scheduleReconnect_def Let_def split: option.splits)

lemma absent_stopStream [simp]:
  "map_of (streams (stopStream c m)) c' = None \<longleftrightarrow> map_of (streams m) c' = None"
  by (simp add: stopStream_def Let_def split: option.splits)

lemma absent_reconnectCallback [simp]:
  "map_of (streams (reconnectCallback c m)) c' = None \<longleftrightarrow> map_of (streams m) c' = None"
  by (simp add: reconnectCallback_def Let_def split: option.splits)

lemma absent_startAll:
  "map_of (streams (startAllStreams m)) c = None \<longleftrightarrow> map_of (streams m) c = None"
proof -
  have "map_of (streams (fold (\<lambda>cam. startStream (Some (cam_id cam))) cams m)) c = None
          \<longleftrightarrow> map_of (streams m) c = None" for cams
    by (induction cams arbitrary: m) simp_all
  then show ?thesis by simp
qed

lemma absent_stopAll:
  "map_of (streams (stopAllStreams m)) c = None \<longleftrightarrow> map_of (streams m) c = None"
proof -
  have "map_of (streams (fold (\<lambda>cam. stopStream (Some (cam_id cam))) cams m)) c = None
          \<longleftrightarrow> map_of (streams m) c = None" for cams
    by (induction cams arbitrary: m) simp_all
  then show ?thesis by simp
qed

lemma absent_step:
  "map_of (streams (step e m)) c = None \<longleftrightarrow> map_of (streams m) c = None"
proof (cases e)
  case StartAll
  then show ?thesis using absent_startAll [of m c] by simp
next
  case StopAll
  then show ?thesis using absent_stopAll [of m c] by simp
qed (simp_all add: setStatusCallback_def onStart_def onError_def onEnd_def timerFired_def
       split: option.splits)

lemma absent_init:
  "map_of (fold (\<lambda>cam. AList.update (cam_id cam) (new_stream cam)) cams al) c = None
     \<longleftrightarrow> c \<notin> cam_id ` set cams \<and> map_of al c = None"
  by (induction cams arbitrary: al) (auto simp: update_conv')

lemma absent_run:
  "map_of (streams (run evs (StreamManager cf))) c = None \<longleftrightarrow> c \<notin> cam_id ` set (cameras cf)"
proof (induction evs rule: rev_induct)
  case Nil
  then show ?case by (simp add: run_def StreamManager_def absent_init)
next
  case (snoc e evs)
  then show ?case by (simp add: run_snoc absent_step)
qed

text \<open>
  C10, amended. For every non-empty camera identifier that is not configured, in every
  reachable state: \<open>getStatus\<close> returns null, and \<open>startStream\<close> and \<open>stopStream\<close>
  return normally and leave the whole manager state as it was.
\<close>

theorem C10_unknown_camera:
  assumes "c \<noteq> []" and "c \<notin> cam_id ` set (cameras cf)"
  shows "getStatus (Some c) (run evs (StreamManager cf)) = Null
       \<and> startStream (Some c) (run evs (StreamManager cf)) = run evs (StreamManager cf)
       \<and> stopStream (Some c) (run evs (StreamManager cf)) = run evs (StreamManager cf)"
  using assms absent_run [of evs cf c]
  by (simp add: getStatus_def startStream_def stopStream_def targetCameraId_def)

theorem C10_unknown_camera_witness:
  "''cam9'' \<noteq> [] \<and> ''cam9'' \<notin> cam_id ` set (cameras cfg1)
   \<and> getStatus (Some ''cam9'') (run [StartStream None] (StreamManager cfg1)) = Null
   \<and> startStream (Some ''cam9'') (run [StartStream None] (StreamManager cfg1))
        = run [StartStream None] (StreamManager cfg1)
   \<and> stopStream (Some ''cam9'') (run [StartStream None] (StreamManager cfg1))
        = run [StartStream None] (StreamManager cfg1)"
  using C10_unknown_camera [of "''cam9''" cfg1 "[StartStream None]"]
  by (simp add: cfg1_def cam1_def)

text \<open>
  The empty identifier is falsy: although it is not a configured camera, \<open>getStatus\<close>
  answers with the table of all cameras, and \<open>startStream\<close> starts the first camera.
\<close>

theorem C10_empty_identifier_counterexample:
  "[] \<notin> cam_id ` set (cameras cfg1)
   \<and> getStatus (Some []) (StreamManager cfg1)
        = AllStatus [(''cam1'', \<lparr>st_cameraId = ''cam1'', st_cameraName = ''Front door'',
                                  st_isStreaming = False, st_reconnectAttempts = 0\<rparr>)]
   \<and> getStatus (Some []) (StreamManager cfg1) \<noteq> Null
   \<and> effects (startStream (Some []) (StreamManager cfg1))
        = [Run 0 ''cam1'', EnsureHlsDirectory ''cam1'', EnsureHlsDirectory ''cam1'']
   \<and> startStream (Some []) (StreamManager cfg1) \<noteq> StreamManager cfg1"
  by (simp add: eval_defs getStatus_def status_of_def allStatus_def property_order_def
        array_index_def is_digit_def)

section \<open>The playlist endpoint\<close>







lemma starts_with_Nil [simp]: "starts_with [] p \<longleftrightarrow> p = []"
  by (cases p) simp_all














lemma strip_lines_Cons:
  "strip_lines eat ((l0, t) # items) final =
     (if endlist_line (if eat then dropWhile is_space l0 else l0)
         \<or> (eat \<and> list_all is_space l0)
      then strip_lines True items final
      else ((if eat then dropWhile is_space l0 else l0, t) # fst (strip_lines False items final),
            snd (strip_lines False items final)))"
  by (auto simp: Let_def list_all_iff dropWhile_eq_Nil_conv split: prod.splits)

lemma strip_lines_Nil:
  "strip_lines eat [] final =
     ([], if endlist_line (if eat then dropWhile is_space final else final) then []
          else if eat then dropWhile is_space final else final)"
  by (simp add: Let_def)

declare strip_lines.simps [simp del]














lemmas manifest_eval = playlist_handler_def js_def endlist_def match_segment_def
  segment_template_def is_space_def is_line_terminator_def ends_with_def is_directive_def
  is_segment_line_def emptyPlaylist_def lines_lf_def Let_def join_lines_def render_line_def
  endlist_line_def marker_on_own_line_def clean_line_def pattern_start_def
  strip_lines_Cons strip_lines_Nil

text \<open>
  C8. When the playlist file of a camera is missing or cannot be read, the response
  has status 200, the content type of an HLS playlist, and a body of six directive
  lines, starting with the \<^verbatim>\<open>#EXTM3U\<close> header and containing a target duration, with
  no segment line.
\<close>

theorem C8_empty_manifest:
  "status (playlist_handler cameraId Missing) = 200
   \<and> map_of (headers (playlist_handler cameraId Missing)) ''Content-Type''
        = Some ''application/vnd.apple.mpegurl''
   \<and> lines_lf (body (playlist_handler cameraId Missing))
        = map js [''#EXTM3U'', ''#EXT-X-VERSION:6'', ''#EXT-X-TARGETDURATION:2'',
           ''#EXT-X-MEDIA-SEQUENCE:0'', ''#EXT-X-INDEPENDENT-SEGMENTS'',
           ''# Stream is starting, please wait...'']
   \<and> list_all is_directive (lines_lf (body (playlist_handler cameraId Missing)))
   \<and> filter is_segment_line (lines_lf (body (playlist_handler cameraId Missing))) = []
   \<and> status (playlist_handler cameraId Unreadable) = 200
   \<and> map_of (headers (playlist_handler cameraId Unreadable)) ''Content-Type''
        = Some ''application/vnd.apple.mpegurl''
   \<and> lines_lf (body (playlist_handler cameraId Unreadable))
        = map js [''#EXTM3U'', ''#EXT-X-VERSION:6'', ''#EXT-X-TARGETDURATION:2'',
           ''#EXT-X-MEDIA-SEQUENCE:0'', ''#EXT-X-INDEPENDENT-SEGMENTS'',
           ''# Error reading playlist, retrying...'']
   \<and> list_all is_directive (lines_lf (body (playlist_handler cameraId Unreadable)))
   \<and> filter is_segment_line (lines_lf (body (playlist_handler cameraId Unreadable))) = []"
  by (simp add: manifest_eval)







end
